theory Spec2Isabelle
  imports Complex_Main
begin

section \<open>The MCP stdio mock server (mcp\_mock\_server.py)\<close>

text \<open>
  The server reads JSON-RPC 2.0 requests line by line and answers them from a
  configuration taken from the environment. The embedding follows the three functions
  of the script: \<open>load_config\<close>, \<open>process_request\<close> and \<open>main\<close>. Python values are
  modelled by the datatype \<open>json\<close>, exceptions by \<open>pyexn\<close>, and the effects of the
  script (sleeping, writing to the two output streams, consuming input lines) by explicit
  state.
\<close>

subsection \<open>Python values\<close>

text \<open>
  The values that \<^verbatim>\<open>json.loads\<close> returns: \<^verbatim>\<open>None\<close>, \<^verbatim>\<open>bool\<close>, \<^verbatim>\<open>int\<close>, \<^verbatim>\<open>float\<close>,
  \<^verbatim>\<open>str\<close>, \<^verbatim>\<open>list\<close> and \<^verbatim>\<open>dict\<close>. A dict keeps its insertion order, so it is an
  association list; the decoder keeps one entry per key, and \<open>map_of\<close> is the lookup.
  A float carries its exact value, which decides \<^verbatim>\<open>==\<close>, and the text that \<^verbatim>\<open>repr\<close>
  prints for it.
\<close>

datatype pyfloat = Finite rat | PosInf | NegInf | NaN

datatype json =
    JNull
  | JBool bool
  | JInt int
  | JFloat pyfloat string
  | JStr string
  | JList "json list"
  | JDict "(string \<times> json) list"

text \<open>
  The exceptions the script can meet. \<open>JSONDecodeError\<close> carries the text of
  \<^verbatim>\<open>str(e)\<close>; \<open>ValueError\<close> is what \<^verbatim>\<open>int\<close> raises on text that is no integer, and
  what \<^verbatim>\<open>json.loads\<close> raises on an integer of more digits than the interpreter converts;
  \<open>RecursionError\<close> is what \<^verbatim>\<open>json.loads\<close> raises on nesting that is too deep;
  \<open>OverflowError\<close> is what \<^verbatim>\<open>time.sleep\<close> raises on a length that its clock cannot hold;
  \<open>OtherError\<close> stands for any other exception.
\<close>

datatype pyexn =
    JSONDecodeError string
  | ValueError
  | AttributeError
  | TypeError
  | KeyError
  | IndexError
  | OverflowError
  | RecursionError
  | OtherError

subsection \<open>Python built-ins used by the script\<close>

text \<open>\<^verbatim>\<open>str(n)\<close> for an integer: decimal digits, with a minus sign.\<close>

function digits_of_nat :: "nat \<Rightarrow> string" where
  "digits_of_nat n =
     (if n < 10 then [char_of (48 + n)]
      else digits_of_nat (n div 10) @ [char_of (48 + n mod 10)])"
  by pat_completeness auto
termination
  by (relation "measure id") auto

definition str_of_int :: "int \<Rightarrow> string" where
  "str_of_int i = (if i < 0 then CHR ''-'' # digits_of_nat (nat (- i)) else digits_of_nat (nat i))"

text \<open>
  \<^verbatim>\<open>repr\<close> of a string: single quotes, unless the string holds a single quote and no
  double quote; the quote and the backslash are escaped, tab, newline and carriage return
  are written with their letters, and every other character that is not printable is
  written \<^verbatim>\<open>\xNN\<close>.
\<close>

definition hex_digit :: "nat \<Rightarrow> char" where
  "hex_digit d = (if d < 10 then char_of (48 + d) else char_of (87 + d))"

definition printable :: "char \<Rightarrow> bool" where
  "printable c =
     (let n = (of_char c :: nat) in (32 \<le> n \<and> n < 127) \<or> (161 \<le> n \<and> n \<noteq> 173))"

definition repr_char :: "char \<Rightarrow> char \<Rightarrow> string" where
  "repr_char q c =
     (if c = q \<or> c = CHR 0x5C then [CHR 0x5C, c]
      else if c = CHR 0x09 then [CHR 0x5C, CHR ''t'']
      else if c = CHR 0x0A then [CHR 0x5C, CHR ''n'']
      else if c = CHR 0x0D then [CHR 0x5C, CHR ''r'']
      else if printable c then [c]
      else [CHR 0x5C, CHR ''x'', hex_digit (of_char c div 16), hex_digit (of_char c mod 16)])"

definition repr_str :: "string \<Rightarrow> string" where
  "repr_str s =
     (let q = (if CHR 0x27 \<in> set s \<and> CHR 0x22 \<notin> set s then CHR 0x22 else CHR 0x27)
      in [q] @ concat (map (repr_char q) s) @ [q])"

fun py_repr :: "json \<Rightarrow> string"
  and repr_elems :: "json list \<Rightarrow> string"
  and repr_items :: "(string \<times> json) list \<Rightarrow> string" where
  "py_repr JNull = ''None''"
| "py_repr (JBool b) = (if b then ''True'' else ''False'')"
| "py_repr (JInt i) = str_of_int i"
| "py_repr (JFloat v r) = r"
| "py_repr (JStr s) = repr_str s"
| "py_repr (JList xs) = ''['' @ repr_elems xs @ '']''"
| "py_repr (JDict kvs) = ''{'' @ repr_items kvs @ ''}''"
| "repr_elems [] = []"
| "repr_elems [x] = py_repr x"
| "repr_elems (x # y # ys) = py_repr x @ '', '' @ repr_elems (y # ys)"
| "repr_items [] = []"
| "repr_items [(k, v)] = repr_str k @ '': '' @ py_repr v"
| "repr_items ((k, v) # kv # kvs) = repr_str k @ '': '' @ py_repr v @ '', '' @ repr_items (kv # kvs)"

text \<open>\<^verbatim>\<open>str(x)\<close>, which is also what an f-string prints for \<^verbatim>\<open>{x}\<close>.\<close>

fun py_str :: "json \<Rightarrow> string" where
  "py_str (JStr s) = s"
| "py_str v = py_repr v"

text \<open>
  The comparison that \<^verbatim>\<open>in\<close> makes on the elements of a list, and that lists and dicts
  make on their elements: \<^verbatim>\<open>a is b or a == b\<close>. \<^verbatim>\<open>bool\<close>, \<^verbatim>\<open>int\<close> and \<^verbatim>\<open>float\<close>
  compare by value (\<^verbatim>\<open>True == 1 == 1.0\<close>). \<^verbatim>\<open>nan == nan\<close> is false, but every
  \<^verbatim>\<open>nan\<close> that \<^verbatim>\<open>json.loads\<close> returns is one and the same object, so the identity test
  makes any two of them match. Lists compare element by element; dicts compare as mappings,
  whatever the order of their entries.
\<close>

fun num_of :: "json \<Rightarrow> pyfloat option" where
  "num_of (JBool b) = Some (Finite (if b then 1 else 0))"
| "num_of (JInt i) = Some (Finite (of_int i))"
| "num_of (JFloat v r) = Some v"
| "num_of v = None"

fun is_or_eq :: "json \<Rightarrow> json \<Rightarrow> bool"
  and eq_elems :: "json list \<Rightarrow> json list \<Rightarrow> bool"
  and eq_items :: "(string \<times> json) list \<Rightarrow> (string \<times> json) list \<Rightarrow> bool" where
  "is_or_eq JNull b = (b = JNull)"
| "is_or_eq (JStr s) b = (b = JStr s)"
| "is_or_eq (JList xs) b = (case b of JList ys \<Rightarrow> eq_elems xs ys | _ \<Rightarrow> False)"
| "is_or_eq (JDict kvs) b =
     (case b of JDict kvs' \<Rightarrow> length kvs = length kvs' \<and> eq_items kvs kvs' | _ \<Rightarrow> False)"
| "is_or_eq a b =
     (case (num_of a, num_of b) of (Some x, Some y) \<Rightarrow> x = y | _ \<Rightarrow> False)"
| "eq_elems [] ys = (ys = [])"
| "eq_elems (x # xs) ys = (case ys of [] \<Rightarrow> False | y # ys' \<Rightarrow> is_or_eq x y \<and> eq_elems xs ys')"
| "eq_items [] m = True"
| "eq_items ((k, v) # kvs) m =
     (case map_of m k of None \<Rightarrow> False | Some v' \<Rightarrow> is_or_eq v v' \<and> eq_items kvs m)"

text \<open>Lists and dicts cannot be hashed, so they cannot be looked up in a dict.\<close>

fun unhashable :: "json \<Rightarrow> bool" where
  "unhashable (JList xs) = True"
| "unhashable (JDict kvs) = True"
| "unhashable v = False"

fun is_substr :: "string \<Rightarrow> string \<Rightarrow> bool" where
  "is_substr t [] = (t = [])"
| "is_substr t (c # cs) = (take (length t) (c # cs) = t \<or> is_substr t cs)"

text \<open>
  \<^verbatim>\<open>item in container\<close>. The keys of a decoded dict are strings, so a hashable item that is
  no string is in no dict. A list is searched with \<open>is_or_eq\<close>, a string for a substring,
  and nothing else is a container.
\<close>

fun py_contains :: "json \<Rightarrow> json \<Rightarrow> pyexn + bool" where
  "py_contains (JDict kvs) item =
     (if unhashable item then Inl TypeError
      else Inr (case item of JStr s \<Rightarrow> s \<in> fst ` set kvs | _ \<Rightarrow> False))"
| "py_contains (JList xs) item = Inr (\<exists>x \<in> set xs. is_or_eq x item)"
| "py_contains (JStr s) item = (case item of JStr t \<Rightarrow> Inr (is_substr t s) | _ \<Rightarrow> Inl TypeError)"
| "py_contains c item = Inl TypeError"

text \<open>
  \<^verbatim>\<open>container[key]\<close>. A list or a string takes an \<^verbatim>\<open>int\<close> (or \<^verbatim>\<open>bool\<close>) index,
  negative ones counting from the end.
\<close>

definition seq_index :: "'a list \<Rightarrow> int \<Rightarrow> pyexn + 'a" where
  "seq_index xs i =
     (if 0 \<le> i \<and> i < int (length xs) then Inr (xs ! nat i)
      else if i < 0 \<and> - int (length xs) \<le> i then Inr (xs ! nat (i + int (length xs)))
      else Inl IndexError)"

fun index_of :: "json \<Rightarrow> int option" where
  "index_of (JInt i) = Some i"
| "index_of (JBool b) = Some (if b then 1 else 0)"
| "index_of v = None"

fun py_getitem :: "json \<Rightarrow> json \<Rightarrow> pyexn + json" where
  "py_getitem (JDict kvs) key =
     (if unhashable key then Inl TypeError
      else case key of
             JStr s \<Rightarrow> (case map_of kvs s of Some v \<Rightarrow> Inr v | None \<Rightarrow> Inl KeyError)
           | _ \<Rightarrow> Inl KeyError)"
| "py_getitem (JList xs) key =
     (case index_of key of Some i \<Rightarrow> seq_index xs i | None \<Rightarrow> Inl TypeError)"
| "py_getitem (JStr s) key =
     (case index_of key of
        Some i \<Rightarrow> (case seq_index s i of Inr c \<Rightarrow> Inr (JStr [c]) | Inl e \<Rightarrow> Inl e)
      | None \<Rightarrow> Inl TypeError)"
| "py_getitem c key = Inl TypeError"

text \<open>\<^verbatim>\<open>d.get(key, default)\<close> on the entries of a dict.\<close>

definition dict_get :: "(string \<times> json) list \<Rightarrow> string \<Rightarrow> json \<Rightarrow> json" where
  "dict_get kvs k dflt = (case map_of kvs k of Some v \<Rightarrow> v | None \<Rightarrow> dflt)"

fun py_len :: "json \<Rightarrow> pyexn + nat" where
  "py_len (JStr s) = Inr (length s)"
| "py_len (JList xs) = Inr (length xs)"
| "py_len (JDict kvs) = Inr (length kvs)"
| "py_len v = Inl TypeError"

text \<open>\<^verbatim>\<open>s.strip()\<close> and \<^verbatim>\<open>s.lower()\<close>.\<close>

definition is_space :: "char \<Rightarrow> bool" where
  "is_space c = ((of_char c :: nat) \<in> {9, 10, 11, 12, 13, 28, 29, 30, 31, 32, 133, 160})"

definition py_strip :: "string \<Rightarrow> string" where
  "py_strip s = rev (dropWhile is_space (rev (dropWhile is_space s)))"

definition lower_char :: "char \<Rightarrow> char" where
  "lower_char c =
     (let n = (of_char c :: nat)
      in if (65 \<le> n \<and> n \<le> 90) \<or> (192 \<le> n \<and> n \<le> 222 \<and> n \<noteq> 215) then char_of (n + 32) else c)"

definition py_lower :: "string \<Rightarrow> string" where
  "py_lower s = map lower_char s"

text \<open>
  \<^verbatim>\<open>time.sleep(secs)\<close> on an integer. The clock counts nanoseconds in 64 bits, so a
  length of \<open>9223372037\<close> seconds or more raises \<open>OverflowError\<close> at once, and a negative
  length raises \<open>ValueError\<close>. A sleep that is made is recorded by its length, not timed.
\<close>

definition sleep_limit :: int where
  "sleep_limit = 9223372037"

definition time_sleep :: "int \<Rightarrow> pyexn + int list" where
  "time_sleep secs =
     (if secs < 0 then Inl ValueError
      else if sleep_limit \<le> secs then Inl OverflowError
      else Inr [secs])"

text \<open>\<^verbatim>\<open>os.environ.get(name, default)\<close>.\<close>

definition env_get :: "(string \<rightharpoonup> string) \<Rightarrow> string \<Rightarrow> string \<Rightarrow> string" where
  "env_get env name dflt = (case env name of Some v \<Rightarrow> v | None \<Rightarrow> dflt)"

subsection \<open>Library parsers\<close>

text \<open>
  \<^verbatim>\<open>json.loads\<close> and \<^verbatim>\<open>int\<close> belong to Python, not to the script, and are parameters
  of the model: \<open>loads\<close> returns the decoded value or the exception raised, and \<open>to_int\<close>
  the integer or the exception raised. The script catches \<open>JSONDecodeError\<close> around the
  first and \<open>ValueError\<close> around the second; any other exception passes through.
\<close>

type_synonym json_loads = "string \<Rightarrow> pyexn + json"
type_synonym int_parser = "string \<Rightarrow> pyexn + int"

subsection \<open>Diagnostics\<close>

text \<open>
  One constructor for each \<^verbatim>\<open>print(..., file=sys.stderr)\<close> of the script, in the order
  of the source, with the values that the line prints.
\<close>

datatype diag =
    Invalid_Responses_JSON
  | Invalid_Errors_JSON
  | Invalid_Delay string
  | Starting
  | Responses_Methods nat
  | Errors_Methods nat
  | Delay_Is int
  | Hang_Is bool
  | Hanging_Forever
  | Interrupted
  | Server_Error pyexn

text \<open>
  \<open>Interrupted\<close> is the line of the \<^verbatim>\<open>KeyboardInterrupt\<close> handler. The interrupt is a
  signal from outside the process, and the model sends none.
\<close>

subsection \<open>load\_config\<close>

text \<open>
  The \<^verbatim>\<open>try\<close> block around \<^verbatim>\<open>json.loads\<close>: on \<open>JSONDecodeError\<close> the setting keeps
  its initial value \<^verbatim>\<open>{}\<close> and one line goes to the error stream.
\<close>

definition try_loads :: "json_loads \<Rightarrow> string \<Rightarrow> diag \<Rightarrow> diag list \<times> (pyexn + json)" where
  "try_loads loads src d =
     (case loads src of
        Inr v \<Rightarrow> ([], Inr v)
      | Inl (JSONDecodeError m) \<Rightarrow> ([d], Inr (JDict []))
      | Inl e \<Rightarrow> ([], Inl e))"

text \<open>
  The result is the error stream written by the loader, and the tuple
  \<^verbatim>\<open>(responses, errors, delay_seconds, hang_forever)\<close> or the exception that escaped.
\<close>

definition load_config ::
  "json_loads \<Rightarrow> int_parser \<Rightarrow> (string \<rightharpoonup> string) \<Rightarrow>
     diag list \<times> (pyexn + (json \<times> json \<times> int \<times> bool))" where
  "load_config loads to_int env =
     (let responses_json = env_get env ''MCP_MOCK_RESPONSES'' ''{}'' in
      case (if responses_json \<noteq> [] then try_loads loads responses_json Invalid_Responses_JSON
            else ([], Inr (JDict []))) of
        (d1, Inl e) \<Rightarrow> (d1, Inl e)
      | (d1, Inr responses) \<Rightarrow>
     (let errors_json = env_get env ''MCP_MOCK_ERRORS'' ''{}'' in
      case (if errors_json \<noteq> [] then try_loads loads errors_json Invalid_Errors_JSON
            else ([], Inr (JDict []))) of
        (d2, Inl e) \<Rightarrow> (d1 @ d2, Inl e)
      | (d2, Inr errors) \<Rightarrow>
     (let delay_str = env_get env ''MCP_MOCK_DELAY'' ''0'' in
      case (case to_int delay_str of
              Inr n \<Rightarrow> ([], Inr n)
            | Inl ValueError \<Rightarrow> ([Invalid_Delay delay_str], Inr 0)
            | Inl e \<Rightarrow> ([], Inl e)) of
        (d3, Inl e) \<Rightarrow> (d1 @ d2 @ d3, Inl e)
      | (d3, Inr delay_seconds) \<Rightarrow>
     (let hang_forever = (py_lower (env_get env ''MCP_MOCK_HANG'' []) \<in> set [''1'', ''true'', ''yes''])
      in (d1 @ d2 @ d3, Inr (responses, errors, delay_seconds, hang_forever))))))"

subsection \<open>process\_request\<close>

text \<open>
  The result is the list of sleeps made (their lengths) and what the function returned:
  \<open>Inr None\<close> for \<^verbatim>\<open>None\<close>, \<open>Inr (Some r)\<close> for the response dict \<open>r\<close>, \<open>Inl e\<close> when
  the exception \<open>e\<close> escaped. \<^verbatim>\<open>request.get\<close> exists on a dict only.
\<close>

definition process_request ::
  "json_loads \<Rightarrow> string \<Rightarrow> json \<Rightarrow> json \<Rightarrow> int \<Rightarrow> int list \<times> (pyexn + json option)" where
  "process_request loads request_line responses errors delay_seconds =
     (case loads request_line of
        Inl (JSONDecodeError e) \<Rightarrow>
          ([], Inr (Some (JDict
             [(''jsonrpc'', JStr ''2.0''),
              (''id'', JNull),
              (''error'', JDict [(''code'', JInt (- 32700)),
                                 (''message'', JStr (''Parse error: '' @ e))])])))
      | Inl exn \<Rightarrow> ([], Inl exn)
      | Inr request \<Rightarrow>
         (case request of
            JDict req \<Rightarrow>
              (let method = dict_get req ''method'' JNull;
                   req_id = dict_get req ''id'' JNull
               in case (if delay_seconds > 0 then time_sleep delay_seconds else Inr []) of
                    Inl exn \<Rightarrow> ([], Inl exn)
                  | Inr slept \<Rightarrow>
               if req_id = JNull then (slept, Inr None)
                  else (slept,
                    (case py_contains errors method of
                       Inl exn \<Rightarrow> Inl exn
                     | Inr in_errors \<Rightarrow>
                        if in_errors then
                          (case py_getitem errors method of
                             Inl exn \<Rightarrow> Inl exn
                           | Inr error_data \<Rightarrow>
                              (let (error_code, error_message) =
                                 (case error_data of
                                    JList xs \<Rightarrow>
                                      if length xs \<ge> 2 then (xs ! 0, xs ! 1)
                                      else (JInt (- 32603), JStr (py_str error_data))
                                  | JDict d \<Rightarrow>
                                      (dict_get d ''code'' (JInt (- 32603)),
                                       dict_get d ''message'' (JStr ''Internal error''))
                                  | _ \<Rightarrow> (JInt (- 32603), JStr (py_str error_data)))
                               in Inr (Some (JDict
                                    [(''jsonrpc'', JStr ''2.0''),
                                     (''id'', req_id),
                                     (''error'', JDict [(''code'', error_code),
                                                        (''message'', error_message)])]))))
                        else
                          (case py_contains responses method of
                             Inl exn \<Rightarrow> Inl exn
                           | Inr in_responses \<Rightarrow>
                              if in_responses then
                                (case py_getitem responses method of
                                   Inl exn \<Rightarrow> Inl exn
                                 | Inr payload \<Rightarrow>
                                    Inr (Some (JDict
                                      [(''jsonrpc'', JStr ''2.0''),
                                       (''id'', req_id),
                                       (''result'', payload)])))
                              else
                                Inr (Some (JDict
                                  [(''jsonrpc'', JStr ''2.0''),
                                   (''id'', req_id),
                                   (''error'', JDict
                                      [(''code'', JInt (- 32601)),
                                       (''message'', JStr (''Method not found: '' @ py_str method))])]))))))
          | _ \<Rightarrow> ([], Inl AttributeError)))"

subsection \<open>main\<close>

text \<open>
  The process: the input lines not yet read, the lines written to standard output (each
  entry is the response that \<^verbatim>\<open>json.dumps\<close> serialises on one line), the error stream,
  the sleeps made, and whether the process is still running, has returned
  from \<^verbatim>\<open>main\<close>, or died of an exception that nothing caught.
\<close>

datatype status = Running | Exited | Crashed pyexn

record proc =
  stdin :: "string list"
  stdout :: "json list"
  stderr :: "diag list"
  sleeps :: "int list"
  status :: status

text \<open>
  \<^verbatim>\<open>while True: time.sleep(1)\<close>. The loop has no exit, so it is run with fuel: after
  \<open>n\<close> iterations the process is where the loop left it, still running.
\<close>

fun hang_loop :: "nat \<Rightarrow> proc \<Rightarrow> proc" where
  "hang_loop 0 p = p"
| "hang_loop (Suc n) p = hang_loop n (p\<lparr>sleeps := sleeps p @ [1]\<rparr>)"

text \<open>
  \<^verbatim>\<open>for line in sys.stdin\<close>, inside the \<^verbatim>\<open>try\<close> whose \<^verbatim>\<open>except Exception\<close> ends the
  loop with one line on the error stream.
\<close>

fun serve :: "json_loads \<Rightarrow> json \<Rightarrow> json \<Rightarrow> int \<Rightarrow> string list \<Rightarrow> proc \<Rightarrow> proc" where
  "serve loads responses errors delay_seconds [] p = p\<lparr>stdin := [], status := Exited\<rparr>"
| "serve loads responses errors delay_seconds (raw # rest) p =
     (let line = py_strip raw in
      if line = [] then serve loads responses errors delay_seconds rest (p\<lparr>stdin := rest\<rparr>)
      else
        (case process_request loads line responses errors delay_seconds of
           (slept, Inl exn) \<Rightarrow>
             p\<lparr>stdin := rest, sleeps := sleeps p @ slept,
               stderr := stderr p @ [Server_Error exn], status := Exited\<rparr>
         | (slept, Inr None) \<Rightarrow>
             serve loads responses errors delay_seconds rest
               (p\<lparr>stdin := rest, sleeps := sleeps p @ slept\<rparr>)
         | (slept, Inr (Some response)) \<Rightarrow>
             serve loads responses errors delay_seconds rest
               (p\<lparr>stdin := rest, sleeps := sleeps p @ slept, stdout := stdout p @ [response]\<rparr>)))"

text \<open>
  \<open>main\<close> takes the fuel of the hang loop, the environment and the lines of standard
  input. \<^verbatim>\<open>len\<close> in the start-up summary raises on a setting that has no length, outside
  every \<^verbatim>\<open>try\<close>.
\<close>

definition main ::
  "json_loads \<Rightarrow> int_parser \<Rightarrow> nat \<Rightarrow> (string \<rightharpoonup> string) \<Rightarrow> string list \<Rightarrow> proc" where
  "main loads to_int fuel env input =
     (let p0 = \<lparr>stdin = input, stdout = [], stderr = [], sleeps = [], status = Running\<rparr> in
      case load_config loads to_int env of
        (ds, Inl exn) \<Rightarrow> p0\<lparr>stderr := ds, status := Crashed exn\<rparr>
      | (ds, Inr (responses, errors, delay_seconds, hang_forever)) \<Rightarrow>
         (case py_len responses of
            Inl exn \<Rightarrow> p0\<lparr>stderr := ds @ [Starting], status := Crashed exn\<rparr>
          | Inr nr \<Rightarrow>
             (case py_len errors of
                Inl exn \<Rightarrow>
                  p0\<lparr>stderr := ds @ [Starting, Responses_Methods nr], status := Crashed exn\<rparr>
              | Inr ne \<Rightarrow>
                 (let p1 = p0\<lparr>stderr := ds @ [Starting, Responses_Methods nr, Errors_Methods ne,
                                               Delay_Is delay_seconds, Hang_Is hang_forever]\<rparr>
                  in if hang_forever
                     then hang_loop fuel (p1\<lparr>stderr := stderr p1 @ [Hanging_Forever]\<rparr>)
                     else serve loads responses errors delay_seconds input p1))))"

subsection \<open>Responses and sample inputs\<close>

text \<open>The two response dicts that \<open>process_request\<close> builds.\<close>

abbreviation error_response :: "json \<Rightarrow> json \<Rightarrow> json \<Rightarrow> json" where
  "error_response req_id code message \<equiv>
     JDict [(''jsonrpc'', JStr ''2.0''), (''id'', req_id),
            (''error'', JDict [(''code'', code), (''message'', message)])]"


text \<open>
  The theorems below hold for every behaviour of the two library parsers. To run the
  model on concrete lines, \<open>sample_texts\<close> lists what \<^verbatim>\<open>json.loads\<close> returns on a few
  texts, among them \<^verbatim>\<open>NaN\<close>, which it accepts although it is no JSON. \<open>many_digits\<close>
  is an integer of 5000 digits, on which \<^verbatim>\<open>json.loads\<close> raises a plain \<open>ValueError\<close>,
  and \<open>deep_nesting\<close> is 2000 opening brackets, on which it raises \<open>RecursionError\<close>.
  \<open>sample_loads\<close> answers from these and rejects every other text the way \<^verbatim>\<open>json.loads\<close>
  rejects \<^verbatim>\<open>not json\<close>. \<open>sample_int\<close> does the same for \<^verbatim>\<open>int\<close>. \<open>proc0\<close> is a
  process that has read and written nothing.
\<close>

definition sample_texts :: "(string \<times> json) list" where
  \<open>sample_texts =
     [(''{}'', JDict []),
      (''5'', JInt 5),
      (''NaN'', JFloat NaN ''nan''),
      (''{"jsonrpc":"2.0","id":1,"method":"ping"}'',
         JDict [(''jsonrpc'', JStr ''2.0''), (''id'', JInt 1), (''method'', JStr ''ping'')]),
      (''{"jsonrpc":"2.0","id":"a","method":"fail"}'',
         JDict [(''jsonrpc'', JStr ''2.0''), (''id'', JStr ''a''), (''method'', JStr ''fail'')]),
      (''{"jsonrpc":"2.0","id":2,"method":"whatever"}'',
         JDict [(''jsonrpc'', JStr ''2.0''), (''id'', JInt 2), (''method'', JStr ''whatever'')]),
      (''{"jsonrpc":"2.0","method":"notify"}'',
         JDict [(''jsonrpc'', JStr ''2.0''), (''method'', JStr ''notify'')]),
      (''{"jsonrpc":"2.0","id":3}'',
         JDict [(''jsonrpc'', JStr ''2.0''), (''id'', JInt 3)]),
      (''{"jsonrpc":"2.0","id":0,"method":"ping"}'',
         JDict [(''jsonrpc'', JStr ''2.0''), (''id'', JInt 0), (''method'', JStr ''ping'')]),
      (''{"jsonrpc":"2.0","id":false,"method":"ping"}'',
         JDict [(''jsonrpc'', JStr ''2.0''), (''id'', JBool False), (''method'', JStr ''ping'')]),
      (''{"jsonrpc":"2.0","id":"","method":"ping"}'',
         JDict [(''jsonrpc'', JStr ''2.0''), (''id'', JStr []), (''method'', JStr ''ping'')]),
      (''{"jsonrpc":"2.0","id":1,"method":[]}'',
         JDict [(''jsonrpc'', JStr ''2.0''), (''id'', JInt 1), (''method'', JList [])]),
      (''{"jsonrpc":"2.0","id":0,"method":[]}'',
         JDict [(''jsonrpc'', JStr ''2.0''), (''id'', JInt 0), (''method'', JList [])])]\<close>

definition many_digits :: string where
  "many_digits = replicate 5000 (CHR ''1'')"

definition deep_nesting :: string where
  "deep_nesting = replicate 2000 (CHR ''['')"

definition sample_loads :: json_loads where
  "sample_loads s =
     (case map_of sample_texts s of
        Some v \<Rightarrow> Inr v
      | None \<Rightarrow>
          if s = many_digits then Inl ValueError
          else if s = deep_nesting then Inl RecursionError
          else Inl (JSONDecodeError ''Expecting value: line 1 column 1 (char 0)''))"

definition sample_numbers :: "(string \<times> int) list" where
  "sample_numbers = [(''0'', 0), (''3'', 3), (''-5'', - 5), (''9223372037'', 9223372037)]"

definition sample_int :: int_parser where
  "sample_int s =
     (case map_of sample_numbers s of
        Some n \<Rightarrow> Inr n
      | None \<Rightarrow> Inl ValueError)"

definition proc0 :: proc where
  "proc0 = \<lparr>stdin = [], stdout = [], stderr = [], sleeps = [], status = Running\<rparr>"

section \<open>Properties\<close>

subsection \<open>Auxiliary facts\<close>



text \<open>
  What the serving loop writes is what was written before, followed by what the lines
  write by themselves; so one step of the loop adds the response of its line, if there is
  one, in front of what the remaining lines write.
\<close>

lemma serve_stdout:
  "stdout (serve loads responses errors d lines p) =
     stdout p @ stdout (serve loads responses errors d lines proc0)"
proof (induction lines arbitrary: p)
  case Nil
  show ?case by (simp add: proc0_def)
next
  case (Cons raw rest)
  show ?case
  proof (cases "py_strip raw = []")
    case True
    have a: "stdout (serve loads responses errors d (raw # rest) p) =
        stdout p @ stdout (serve loads responses errors d rest proc0)"
      using True Cons.IH[of "p\<lparr>stdin := rest\<rparr>"] by simp
    have b: "stdout (serve loads responses errors d (raw # rest) proc0) =
        stdout (serve loads responses errors d rest proc0)"
      using True Cons.IH[of "proc0\<lparr>stdin := rest\<rparr>"] by (simp add: proc0_def)
    show ?thesis by (simp only: a b)
  next
    case False
    obtain sl out where pr:
      "process_request loads (py_strip raw) responses errors d = (sl, out)"
      by (cases "process_request loads (py_strip raw) responses errors d")
    show ?thesis
    proof (cases out)
      case (Inl exn)
      show ?thesis using False pr Inl by (simp add: proc0_def)
    next
      case (Inr answer)
      show ?thesis
      proof (cases answer)
        case None
        have a: "stdout (serve loads responses errors d (raw # rest) p) =
            stdout p @ stdout (serve loads responses errors d rest proc0)"
          using False pr Inr None
            Cons.IH[of "p\<lparr>stdin := rest, sleeps := sleeps p @ sl\<rparr>"]
          by simp
        have b: "stdout (serve loads responses errors d (raw # rest) proc0) =
            stdout (serve loads responses errors d rest proc0)"
          using False pr Inr None
            Cons.IH[of "proc0\<lparr>stdin := rest, sleeps := sleeps proc0 @ sl\<rparr>"]
          by (simp add: proc0_def)
        show ?thesis by (simp only: a b)
      next
        case (Some r)
        have a: "stdout (serve loads responses errors d (raw # rest) p) =
            stdout p @ [r] @ stdout (serve loads responses errors d rest proc0)"
          using False pr Inr Some
            Cons.IH[of "p\<lparr>stdin := rest, sleeps := sleeps p @ sl, stdout := stdout p @ [r]\<rparr>"]
          by simp
        have b: "stdout (serve loads responses errors d (raw # rest) proc0) =
            [r] @ stdout (serve loads responses errors d rest proc0)"
          using False pr Inr Some
            Cons.IH[of "proc0\<lparr>stdin := rest, sleeps := sleeps proc0 @ sl,
                            stdout := stdout proc0 @ [r]\<rparr>"]
          by (simp add: proc0_def)
        show ?thesis by (simp only: a b)
      qed
    qed
  qed
qed

lemma serve_step_stdout:
  assumes "py_strip raw = line" and "line \<noteq> []"
  shows "stdout (serve loads responses errors d (raw # rest) p) =
     (case snd (process_request loads line responses errors d) of
        Inl exn \<Rightarrow> stdout p
      | Inr None \<Rightarrow> stdout p @ stdout (serve loads responses errors d rest proc0)
      | Inr (Some r) \<Rightarrow> stdout p @ [r] @ stdout (serve loads responses errors d rest proc0))"
proof -
  obtain sl out where pr: "process_request loads line responses errors d = (sl, out)"
    by (cases "process_request loads line responses errors d")
  show ?thesis
  proof (cases out)
    case (Inl exn)
    show ?thesis using assms pr Inl by simp
  next
    case (Inr answer)
    show ?thesis
    proof (cases answer)
      case None
      show ?thesis
        using assms pr Inr None
          serve_stdout[of loads responses errors d rest
            "p\<lparr>stdin := rest, sleeps := sleeps p @ sl\<rparr>"]
        by simp
    next
      case (Some r)
      show ?thesis
        using assms pr Inr Some
          serve_stdout[of loads responses errors d rest
            "p\<lparr>stdin := rest, sleeps := sleeps p @ sl, stdout := stdout p @ [r]\<rparr>"]
        by simp
    qed
  qed
qed

lemma hang_loop_sleeps: "hang_loop n p = p\<lparr>sleeps := sleeps p @ replicate n 1\<rparr>"
proof (induction n arbitrary: p)
  case 0
  show ?case by simp
next
  case (Suc n)
  show ?case by (simp add: Suc.IH replicate_append_same)
qed



lemma process_request_nonpositive_delay:
  "d \<le> 0 \<Longrightarrow> process_request loads line rs es d = process_request loads line rs es 0"
  by (simp add: process_request_def)

lemma process_request_no_sleep:
  "d \<le> 0 \<Longrightarrow> fst (process_request loads line rs es d) = []"
  by (simp add: process_request_def Let_def split: sum.split pyexn.split json.split)

lemma serve_nonpositive_delay:
  "d \<le> 0 \<Longrightarrow> serve loads rs es d input p = serve loads rs es 0 input p"
proof (induction input arbitrary: p)
  case Nil
  show ?case by simp
next
  case (Cons raw rest)
  show ?case
    by (simp add: process_request_nonpositive_delay[OF Cons.prems] Cons.IH[OF Cons.prems]
          Let_def split: prod.split sum.split option.split)
qed

text \<open>The sample parsers on the sample texts.\<close>

lemma long_texts_differ:
  "length s < 2000 \<Longrightarrow> (s = many_digits) = False"
  "length s < 2000 \<Longrightarrow> (many_digits = s) = False"
  "length s < 2000 \<Longrightarrow> (s = deep_nesting) = False"
  "length s < 2000 \<Longrightarrow> (deep_nesting = s) = False"
  "(deep_nesting = many_digits) = False"
  "(many_digits = deep_nesting) = False"
  by (auto simp: many_digits_def deep_nesting_def)

lemma sample_loads_not_json:
  "sample_loads ''not json'' =
     Inl (JSONDecodeError ''Expecting value: line 1 column 1 (char 0)'')"
  by (simp add: sample_loads_def sample_texts_def long_texts_differ)




lemma sample_loads_five: "sample_loads ''5'' = Inr (JInt 5)"
  by (simp add: sample_loads_def sample_texts_def)




lemma sample_loads_empty_object: "sample_loads ''{}'' = Inr (JDict [])"
  by (simp add: sample_loads_def sample_texts_def)

lemma sample_loads_many_digits: "sample_loads many_digits = Inl ValueError"
  by (simp add: sample_loads_def sample_texts_def long_texts_differ)

lemma many_digits_not_empty: "many_digits \<noteq> []"
  by (simp add: many_digits_def)





subsection \<open>Configured errors win over configured results\<close>




subsection \<open>Parse errors\<close>

text \<open>
  C2, as stated, promises the \<open>-32700\<close> response to every line that is not valid JSON.
  \<^verbatim>\<open>json.loads\<close> accepts \<^verbatim>\<open>NaN\<close>, which is no JSON, and \<^verbatim>\<open>request.get\<close> then raises
  \<open>AttributeError\<close>; on deep nesting it raises \<open>RecursionError\<close>, which the script does
  not catch. Neither line gets a response, and the first ends the serving loop with nothing
  written.
\<close>

theorem not_valid_json_counterexample:
  \<open>sample_loads ''NaN'' = Inr (JFloat NaN ''nan'')
   \<and> process_request sample_loads ''NaN'' (JDict []) (JDict []) 0 = ([], Inl AttributeError)
   \<and> stdout (serve sample_loads (JDict []) (JDict []) 0 [''NaN'' @ [CHR 0x0A]] proc0) = []
   \<and> sample_loads deep_nesting = Inl RecursionError
   \<and> process_request sample_loads deep_nesting (JDict []) (JDict []) 0 =
        ([], Inl RecursionError)\<close>
proof -
  have n: "sample_loads ''NaN'' = Inr (JFloat NaN ''nan'')"
    by (simp add: sample_loads_def sample_texts_def)
  have p: "process_request sample_loads ''NaN'' (JDict []) (JDict []) 0 = ([], Inl AttributeError)"
    by (simp add: process_request_def n)
  have s: "py_strip (''NaN'' @ [CHR 0x0A]) = ''NaN''"
    by (simp add: py_strip_def is_space_def)
  have o: "stdout (serve sample_loads (JDict []) (JDict []) 0 [''NaN'' @ [CHR 0x0A]] proc0) = []"
    using serve_step_stdout[where loads = sample_loads and responses = "JDict []"
        and errors = "JDict []" and d = 0 and rest = "[]" and p = proc0, OF s]
    by (simp add: p proc0_def)
  have d: "sample_loads deep_nesting = Inl RecursionError"
    by (simp add: sample_loads_def sample_texts_def long_texts_differ)
  have q: "process_request sample_loads deep_nesting (JDict []) (JDict []) 0 =
        ([], Inl RecursionError)"
    by (simp add: process_request_def d)
  show ?thesis
    by (intro conjI) (rule n p o d q)+
qed

text \<open>
  C2, amended. A line on which \<^verbatim>\<open>json.loads\<close> raises \<open>JSONDecodeError\<close> gets exactly one
  response, whatever the responses, the errors and the delay are: an error response with
  code \<open>-32700\<close>, id null and the message \<^verbatim>\<open>Parse error: \<close> followed by the text of the
  decoding error. No sleep is made. The serving loop writes that response as one line,
  after what was written before and before what the remaining lines write.
\<close>

theorem parse_error_response:
  assumes "loads line = Inl (JSONDecodeError e)"
  shows "process_request loads line responses errors d =
           ([], Inr (Some (error_response JNull (JInt (- 32700)) (JStr (''Parse error: '' @ e)))))
       \<and> (py_strip raw = line \<and> line \<noteq> [] \<longrightarrow>
            stdout (serve loads responses errors d (raw # rest) p) =
              stdout p
              @ [error_response JNull (JInt (- 32700)) (JStr (''Parse error: '' @ e))]
              @ stdout (serve loads responses errors d rest proc0))"
proof -
  have pr: "process_request loads line responses errors d =
           ([], Inr (Some (error_response JNull (JInt (- 32700)) (JStr (''Parse error: '' @ e)))))"
    using assms by (simp add: process_request_def)
  show ?thesis
  proof (intro conjI impI)
    show "process_request loads line responses errors d =
           ([], Inr (Some (error_response JNull (JInt (- 32700)) (JStr (''Parse error: '' @ e)))))"
      by (rule pr)
  next
    assume a: "py_strip raw = line \<and> line \<noteq> []"
    show "stdout (serve loads responses errors d (raw # rest) p) =
              stdout p
              @ [error_response JNull (JInt (- 32700)) (JStr (''Parse error: '' @ e))]
              @ stdout (serve loads responses errors d rest proc0)"
      using serve_step_stdout[of raw line loads responses errors d rest p] a
      by (simp add: pr)
  qed
qed

theorem parse_error_response_witness:
  \<open>sample_loads ''not json'' = Inl (JSONDecodeError ''Expecting value: line 1 column 1 (char 0)'')
   \<and> process_request sample_loads ''not json'' (JDict [(''ping'', JStr ''pong'')]) (JDict []) 3 =
        ([], Inr (Some (error_response JNull (JInt (- 32700))
           (JStr (''Parse error: '' @ ''Expecting value: line 1 column 1 (char 0)'')))))
   \<and> py_strip (''not json'' @ [CHR 0x0A]) = ''not json''
   \<and> ''not json'' \<noteq> []
   \<and> stdout (serve sample_loads (JDict [(''ping'', JStr ''pong'')]) (JDict []) 3
        [''not json'' @ [CHR 0x0A]] proc0) =
      stdout proc0
      @ [error_response JNull (JInt (- 32700))
           (JStr (''Parse error: '' @ ''Expecting value: line 1 column 1 (char 0)''))]
      @ stdout (serve sample_loads (JDict [(''ping'', JStr ''pong'')]) (JDict []) 3 [] proc0)\<close>
proof -
  have h2: "py_strip (''not json'' @ [CHR 0x0A]) = ''not json''"
    by (simp add: py_strip_def is_space_def)
  have h3: "''not json'' \<noteq> []"
    by simp
  note t = parse_error_response[where loads = sample_loads and line = "''not json''"
         and raw = "''not json'' @ [CHR 0x0A]" and responses = "JDict [(''ping'', JStr ''pong'')]"
         and errors = "JDict []" and d = 3 and rest = "[]" and p = proc0,
         OF sample_loads_not_json]
  note t1 = t[THEN conjunct1]
  note t2 = t[THEN conjunct2, rule_format, OF conjI[OF h2 h3]]
  show ?thesis
    by (intro conjI) (rule sample_loads_not_json t1 h2 h3 t2)+
qed

subsection \<open>Notifications\<close>



subsection \<open>The delay comes before the id check\<close>




subsection \<open>The shapes of an error descriptor\<close>



subsection \<open>Unknown methods and configured results\<close>




subsection \<open>Loading the configuration\<close>

text \<open>
  C7, as stated, promises a configuration for every environment. The loader catches
  \<open>JSONDecodeError\<close> only: on a responses variable that holds an integer of 5000 digits
  \<^verbatim>\<open>json.loads\<close> raises a plain \<open>ValueError\<close>, \<open>load_config\<close> raises it too, and the
  process dies of it, since \<open>main\<close> calls \<open>load_config\<close> outside every \<^verbatim>\<open>try\<close>.
\<close>

theorem load_config_raises_counterexample:
  "sample_loads many_digits = Inl ValueError
   \<and> load_config sample_loads sample_int [''MCP_MOCK_RESPONSES'' \<mapsto> many_digits] =
       ([], Inl ValueError)
   \<and> status (main sample_loads sample_int 0 [''MCP_MOCK_RESPONSES'' \<mapsto> many_digits] []) =
       Crashed ValueError"
proof -
  have l: "load_config sample_loads sample_int [''MCP_MOCK_RESPONSES'' \<mapsto> many_digits] =
       ([], Inl ValueError)"
    by (simp add: load_config_def env_get_def try_loads_def sample_loads_many_digits
          many_digits_not_empty)
  have m: "status (main sample_loads sample_int 0 [''MCP_MOCK_RESPONSES'' \<mapsto> many_digits] []) =
       Crashed ValueError"
    by (simp add: main_def l)
  show ?thesis
    by (intro conjI) (rule sample_loads_many_digits l m)+
qed

text \<open>
  C7, amended. \<open>load_config\<close> returns a configuration for every environment on whose
  responses and errors texts \<^verbatim>\<open>json.loads\<close> returns a value or raises \<open>JSONDecodeError\<close>
  (\<^verbatim>\<open>int\<close> raising nothing but \<open>ValueError\<close> on the delay text). An absent or empty
  responses or errors variable gives the empty mapping without a diagnostic; text on which
  \<^verbatim>\<open>json.loads\<close> raises \<open>JSONDecodeError\<close> gives the empty mapping and one diagnostic; an
  absent delay variable gives 0 without a diagnostic; text that \<^verbatim>\<open>int\<close> rejects gives 0
  and one diagnostic. The loader writes to the error stream only: its diagnostics are the
  first component of the result, and standard output is no part of it.
\<close>

theorem load_config_never_fails:
  assumes responses_text:
      "\<forall>e. loads (env_get env ''MCP_MOCK_RESPONSES'' ''{}'') = Inl e \<longrightarrow>
           (\<exists>m. e = JSONDecodeError m)"
    and errors_text:
      "\<forall>e. loads (env_get env ''MCP_MOCK_ERRORS'' ''{}'') = Inl e \<longrightarrow>
           (\<exists>m. e = JSONDecodeError m)"
    and delay_text:
      "\<forall>e. to_int (env_get env ''MCP_MOCK_DELAY'' ''0'') = Inl e \<longrightarrow> e = ValueError"
    and empty_object: "loads ''{}'' = Inr (JDict [])"
    and zero: "to_int ''0'' = Inr 0"
  shows "\<exists>ds responses errors delay hang.
     load_config loads to_int env = (ds, Inr (responses, errors, delay, hang)) \<and>
     (env ''MCP_MOCK_RESPONSES'' = None \<or> env ''MCP_MOCK_RESPONSES'' = Some [] \<longrightarrow>
        responses = JDict [] \<and> Invalid_Responses_JSON \<notin> set ds) \<and>
     (\<forall>s m. env ''MCP_MOCK_RESPONSES'' = Some s \<and> s \<noteq> [] \<and> loads s = Inl (JSONDecodeError m) \<longrightarrow>
        responses = JDict [] \<and> Invalid_Responses_JSON \<in> set ds) \<and>
     (env ''MCP_MOCK_ERRORS'' = None \<or> env ''MCP_MOCK_ERRORS'' = Some [] \<longrightarrow>
        errors = JDict [] \<and> Invalid_Errors_JSON \<notin> set ds) \<and>
     (\<forall>s m. env ''MCP_MOCK_ERRORS'' = Some s \<and> s \<noteq> [] \<and> loads s = Inl (JSONDecodeError m) \<longrightarrow>
        errors = JDict [] \<and> Invalid_Errors_JSON \<in> set ds) \<and>
     (env ''MCP_MOCK_DELAY'' = None \<longrightarrow> delay = 0 \<and> (\<forall>t. Invalid_Delay t \<notin> set ds)) \<and>
     (\<forall>s. env ''MCP_MOCK_DELAY'' = Some s \<and> to_int s = Inl ValueError \<longrightarrow>
        delay = 0 \<and> Invalid_Delay s \<in> set ds)"
proof -
  have r: "try_loads loads (env_get env ''MCP_MOCK_RESPONSES'' ''{}'') dg =
      (case loads (env_get env ''MCP_MOCK_RESPONSES'' ''{}'') of
         Inr v \<Rightarrow> ([], Inr v) | Inl e \<Rightarrow> ([dg], Inr (JDict [])))" for dg
  proof (cases "loads (env_get env ''MCP_MOCK_RESPONSES'' ''{}'')")
    case (Inl e)
    with responses_text obtain m where "e = JSONDecodeError m"
      by blast
    with Inl show ?thesis by (simp add: try_loads_def)
  next
    case (Inr v)
    then show ?thesis by (simp add: try_loads_def)
  qed
  have e: "try_loads loads (env_get env ''MCP_MOCK_ERRORS'' ''{}'') dg =
      (case loads (env_get env ''MCP_MOCK_ERRORS'' ''{}'') of
         Inr v \<Rightarrow> ([], Inr v) | Inl e \<Rightarrow> ([dg], Inr (JDict [])))" for dg
  proof (cases "loads (env_get env ''MCP_MOCK_ERRORS'' ''{}'')")
    case (Inl e)
    with errors_text obtain m where "e = JSONDecodeError m"
      by blast
    with Inl show ?thesis by (simp add: try_loads_def)
  next
    case (Inr v)
    then show ?thesis by (simp add: try_loads_def)
  qed
  have i: "(case to_int (env_get env ''MCP_MOCK_DELAY'' ''0'') of
              Inr n \<Rightarrow> ([], Inr n)
            | Inl ValueError \<Rightarrow> ([Invalid_Delay (env_get env ''MCP_MOCK_DELAY'' ''0'')], Inr 0)
            | Inl e \<Rightarrow> ([], Inl e)) =
           (case to_int (env_get env ''MCP_MOCK_DELAY'' ''0'') of
              Inr n \<Rightarrow> ([], Inr n)
            | Inl e \<Rightarrow> ([Invalid_Delay (env_get env ''MCP_MOCK_DELAY'' ''0'')], Inr 0))"
  proof (cases "to_int (env_get env ''MCP_MOCK_DELAY'' ''0'')")
    case (Inl x)
    with delay_text have "x = ValueError" by blast
    with Inl show ?thesis by simp
  next
    case (Inr n)
    then show ?thesis by simp
  qed
  show ?thesis
    unfolding load_config_def Let_def r e i
    using empty_object zero
    by (auto simp: env_get_def split: option.split sum.split)
qed

theorem load_config_never_fails_witness:
  "\<exists>ds responses errors delay hang.
     load_config sample_loads sample_int
       [''MCP_MOCK_RESPONSES'' \<mapsto> ''not json'', ''MCP_MOCK_DELAY'' \<mapsto> ''soon''] =
       (ds, Inr (responses, errors, delay, hang))
     \<and> responses = JDict [] \<and> Invalid_Responses_JSON \<in> set ds
     \<and> errors = JDict [] \<and> Invalid_Errors_JSON \<notin> set ds
     \<and> delay = 0 \<and> Invalid_Delay ''soon'' \<in> set ds"
proof -
  define env :: "string \<rightharpoonup> string"
    where "env = [''MCP_MOCK_RESPONSES'' \<mapsto> ''not json'', ''MCP_MOCK_DELAY'' \<mapsto> ''soon'']"
  define bad :: string where "bad = ''not json''"
  define msg :: string where "msg = ''Expecting value: line 1 column 1 (char 0)''"
  define soon :: string where "soon = ''soon''"
  have z: "sample_int ''0'' = Inr 0"
    by (simp add: sample_int_def sample_numbers_def)
  have r: "sample_loads bad = Inl (JSONDecodeError msg)"
    unfolding bad_def msg_def by (rule sample_loads_not_json)
  have i: "sample_int soon = Inl ValueError"
    by (simp add: sample_int_def sample_numbers_def soon_def)
  have k1: "env ''MCP_MOCK_RESPONSES'' = Some bad"
    by (simp add: env_def bad_def)
  have k2: "env ''MCP_MOCK_ERRORS'' = None"
    by (simp add: env_def)
  have k3: "env ''MCP_MOCK_DELAY'' = Some soon"
    by (simp add: env_def soon_def)
  have n: "bad \<noteq> []" by (simp add: bad_def)
  have g1: "\<forall>e. sample_loads (env_get env ''MCP_MOCK_RESPONSES'' ''{}'') = Inl e \<longrightarrow>
           (\<exists>m. e = JSONDecodeError m)"
    by (simp add: env_get_def k1 r)
  have g2: "\<forall>e. sample_loads (env_get env ''MCP_MOCK_ERRORS'' ''{}'') = Inl e \<longrightarrow>
           (\<exists>m. e = JSONDecodeError m)"
    by (simp add: env_get_def k2 sample_loads_empty_object)
  have g3: "\<forall>e. sample_int (env_get env ''MCP_MOCK_DELAY'' ''0'') = Inl e \<longrightarrow> e = ValueError"
    by (simp add: env_get_def k3 i)
  from load_config_never_fails[where loads = sample_loads and to_int = sample_int
      and env = env, OF g1 g2 g3 sample_loads_empty_object z]
  obtain ds responses errors delay hang where
    c: "load_config sample_loads sample_int env = (ds, Inr (responses, errors, delay, hang))"
    and c1: "\<forall>s m. env ''MCP_MOCK_RESPONSES'' = Some s \<and> s \<noteq> [] \<and>
               sample_loads s = Inl (JSONDecodeError m) \<longrightarrow>
               responses = JDict [] \<and> Invalid_Responses_JSON \<in> set ds"
    and c2: "env ''MCP_MOCK_ERRORS'' = None \<or> env ''MCP_MOCK_ERRORS'' = Some [] \<longrightarrow>
               errors = JDict [] \<and> Invalid_Errors_JSON \<notin> set ds"
    and c3: "\<forall>s. env ''MCP_MOCK_DELAY'' = Some s \<and> sample_int s = Inl ValueError \<longrightarrow>
               delay = 0 \<and> Invalid_Delay s \<in> set ds"
    by (elim exE conjE)
  from c1 k1 n r have d1: "responses = JDict [] \<and> Invalid_Responses_JSON \<in> set ds" by blast
  from c2 k2 have d2: "errors = JDict [] \<and> Invalid_Errors_JSON \<notin> set ds" by blast
  from c3 k3 i have d3: "delay = 0 \<and> Invalid_Delay soon \<in> set ds" by blast
  have "load_config sample_loads sample_int env = (ds, Inr (responses, errors, delay, hang))
     \<and> responses = JDict [] \<and> Invalid_Responses_JSON \<in> set ds
     \<and> errors = JDict [] \<and> Invalid_Errors_JSON \<notin> set ds
     \<and> delay = 0 \<and> Invalid_Delay soon \<in> set ds"
    using c d1 d2 d3 by (intro conjI) (erule conjunct1 conjunct2 | assumption)+
  then show ?thesis
    unfolding env_def soon_def by (intro exI)
qed

subsection \<open>Hanging forever\<close>

text \<open>
  C8, as stated, promises the hang whenever the hang flag is true. The start-up summary
  takes \<^verbatim>\<open>len\<close> of both settings before the flag is tested: with the responses variable
  \<^verbatim>\<open>5\<close>, which \<^verbatim>\<open>json.loads\<close> reads as a number, \<^verbatim>\<open>len\<close> raises \<open>TypeError\<close> outside
  every \<^verbatim>\<open>try\<close>, and the process ends without a single sleep.
\<close>

theorem hang_crash_counterexample:
  "load_config sample_loads sample_int
     [''MCP_MOCK_RESPONSES'' \<mapsto> ''5'', ''MCP_MOCK_HANG'' \<mapsto> ''1''] =
     ([], Inr (JInt 5, JDict [], 0, True))
   \<and> status (main sample_loads sample_int 3
        [''MCP_MOCK_RESPONSES'' \<mapsto> ''5'', ''MCP_MOCK_HANG'' \<mapsto> ''1''] []) = Crashed TypeError
   \<and> sleeps (main sample_loads sample_int 3
        [''MCP_MOCK_RESPONSES'' \<mapsto> ''5'', ''MCP_MOCK_HANG'' \<mapsto> ''1''] []) = []"
proof -
  have w: "py_lower ''1'' = ''1''"
    by code_simp
  have l: "load_config sample_loads sample_int
     [''MCP_MOCK_RESPONSES'' \<mapsto> ''5'', ''MCP_MOCK_HANG'' \<mapsto> ''1''] =
     ([], Inr (JInt 5, JDict [], 0, True))"
    by (simp add: load_config_def env_get_def try_loads_def sample_loads_five
          sample_loads_empty_object sample_int_def sample_numbers_def w)
  have m: "main sample_loads sample_int 3
        [''MCP_MOCK_RESPONSES'' \<mapsto> ''5'', ''MCP_MOCK_HANG'' \<mapsto> ''1''] [] =
      \<lparr>stdin = [], stdout = [], stderr = [Starting], sleeps = [], status = Crashed TypeError\<rparr>"
    by (simp add: main_def l)
  show ?thesis
    by (intro conjI) (simp_all add: l m)
qed

text \<open>
  C8, amended. When the hang flag of the loaded configuration is true and the responses and
  errors settings have a length (each is a JSON object, array or string), the process never
  leaves the hang loop: after any number \<open>n\<close> of iterations it is still running, it has
  slept \<open>n\<close> times for one second, every input line is still unread and nothing has been
  written to standard output.
\<close>

theorem hang_forever_never_serves:
  assumes "load_config loads to_int env = (ds, Inr (responses, errors, d, True))"
    and "py_len responses = Inr nr"
    and "py_len errors = Inr ne"
  shows "status (main loads to_int n env input) = Running
       \<and> stdin (main loads to_int n env input) = input
       \<and> stdout (main loads to_int n env input) = []
       \<and> sleeps (main loads to_int n env input) = replicate n 1"
  using assms by (simp add: main_def hang_loop_sleeps)

theorem hang_forever_never_serves_witness:
  \<open>load_config sample_loads sample_int [''MCP_MOCK_HANG'' \<mapsto> ''YES''] =
      ([], Inr (JDict [], JDict [], 0, True))
   \<and> py_len (JDict []) = Inr 0
   \<and> status (main sample_loads sample_int 3 [''MCP_MOCK_HANG'' \<mapsto> ''YES'']
        [''{"jsonrpc":"2.0","id":1,"method":"ping"}'' @ [CHR 0x0A]]) = Running
   \<and> stdin (main sample_loads sample_int 3 [''MCP_MOCK_HANG'' \<mapsto> ''YES'']
        [''{"jsonrpc":"2.0","id":1,"method":"ping"}'' @ [CHR 0x0A]]) =
      [''{"jsonrpc":"2.0","id":1,"method":"ping"}'' @ [CHR 0x0A]]
   \<and> stdout (main sample_loads sample_int 3 [''MCP_MOCK_HANG'' \<mapsto> ''YES'']
        [''{"jsonrpc":"2.0","id":1,"method":"ping"}'' @ [CHR 0x0A]]) = []
   \<and> sleeps (main sample_loads sample_int 3 [''MCP_MOCK_HANG'' \<mapsto> ''YES'']
        [''{"jsonrpc":"2.0","id":1,"method":"ping"}'' @ [CHR 0x0A]]) = replicate 3 1\<close>
proof -
  have l: "py_lower ''YES'' = ''yes''"
    by code_simp
  have h: "load_config sample_loads sample_int [''MCP_MOCK_HANG'' \<mapsto> ''YES''] =
      ([], Inr (JDict [], JDict [], 0, True))"
    by (simp add: load_config_def env_get_def try_loads_def sample_loads_empty_object
          sample_int_def sample_numbers_def l)
  have n: "py_len (JDict []) = Inr 0"
    by simp
  note t = hang_forever_never_serves[where loads = sample_loads and to_int = sample_int
      and n = 3 and env = "[''MCP_MOCK_HANG'' \<mapsto> ''YES'']"
      and input = \<open>[''{"jsonrpc":"2.0","id":1,"method":"ping"}'' @ [CHR 0x0A]]\<close>, OF h n n]
  show ?thesis
    by (rule conjI[OF h conjI[OF n t]])
qed

subsection \<open>Falsy ids\<close>




subsection \<open>A negative delay\<close>

text \<open>
  C10. When the delay variable holds text that \<^verbatim>\<open>int\<close> reads as a negative number, the
  loader returns that number with no diagnostic about the delay, and requests are processed
  as with delay 0: \<open>process_request\<close> makes no sleep and returns what it returns for 0, and
  the serving loop leaves the process in the same state.
\<close>

theorem negative_delay_is_no_delay:
  assumes "env ''MCP_MOCK_DELAY'' = Some s"
    and "to_int s = Inr d"
    and "d < 0"
    and "load_config loads to_int env = (ds, Inr (responses, errors, d', hang))"
  shows "d' = d \<and> (\<forall>t. Invalid_Delay t \<notin> set ds)
       \<and> fst (process_request loads line rs es d) = []
       \<and> process_request loads line rs es d = process_request loads line rs es 0
       \<and> serve loads rs es d input p = serve loads rs es 0 input p"
proof -
  have le: "d \<le> 0" using assms(3) by simp
  have cfg: "d' = d \<and> (\<forall>t. Invalid_Delay t \<notin> set ds)"
    using assms(1,2,4)
    by (auto simp: load_config_def Let_def env_get_def try_loads_def
             split: if_splits sum.splits pyexn.splits prod.splits)
  show ?thesis
    using cfg process_request_no_sleep[OF le] process_request_nonpositive_delay[OF le]
      serve_nonpositive_delay[OF le]
    by simp
qed

theorem negative_delay_is_no_delay_witness:
  \<open>[''MCP_MOCK_DELAY'' \<mapsto> ''-5''] ''MCP_MOCK_DELAY'' = Some ''-5''
   \<and> sample_int ''-5'' = Inr (- 5)
   \<and> (- 5 :: int) < 0
   \<and> load_config sample_loads sample_int [''MCP_MOCK_DELAY'' \<mapsto> ''-5''] =
      ([], Inr (JDict [], JDict [], - 5, False))
   \<and> fst (process_request sample_loads ''{"jsonrpc":"2.0","id":1,"method":"ping"}''
        (JDict [(''ping'', JStr ''pong'')]) (JDict []) (- 5)) = []
   \<and> process_request sample_loads ''{"jsonrpc":"2.0","id":1,"method":"ping"}''
        (JDict [(''ping'', JStr ''pong'')]) (JDict []) (- 5) =
      process_request sample_loads ''{"jsonrpc":"2.0","id":1,"method":"ping"}''
        (JDict [(''ping'', JStr ''pong'')]) (JDict []) 0
   \<and> serve sample_loads (JDict [(''ping'', JStr ''pong'')]) (JDict []) (- 5)
        [''{"jsonrpc":"2.0","id":1,"method":"ping"}'' @ [CHR 0x0A]] proc0 =
      serve sample_loads (JDict [(''ping'', JStr ''pong'')]) (JDict []) 0
        [''{"jsonrpc":"2.0","id":1,"method":"ping"}'' @ [CHR 0x0A]] proc0\<close>
proof -
  have h1: "[''MCP_MOCK_DELAY'' \<mapsto> ''-5''] ''MCP_MOCK_DELAY'' = Some ''-5''"
    by simp
  have h2: "sample_int ''-5'' = Inr (- 5)"
    by (simp add: sample_int_def sample_numbers_def)
  have h3: "(- 5 :: int) < 0"
    by simp
  have l: "py_lower [] = []"
    by (simp add: py_lower_def)
  have h4: "load_config sample_loads sample_int [''MCP_MOCK_DELAY'' \<mapsto> ''-5''] =
      ([], Inr (JDict [], JDict [], - 5, False))"
    by (simp add: load_config_def env_get_def try_loads_def sample_loads_empty_object
          sample_int_def sample_numbers_def l)
  note t = negative_delay_is_no_delay[where loads = sample_loads and to_int = sample_int
      and line = \<open>''{"jsonrpc":"2.0","id":1,"method":"ping"}''\<close>
      and rs = "JDict [(''ping'', JStr ''pong'')]" and es = "JDict []"
      and input = \<open>[''{"jsonrpc":"2.0","id":1,"method":"ping"}'' @ [CHR 0x0A]]\<close>
      and p = proc0, OF h1 h2 h3 h4]
  note t3 = t[THEN conjunct2, THEN conjunct2, THEN conjunct1]
  note t4 = t[THEN conjunct2, THEN conjunct2, THEN conjunct2, THEN conjunct1]
  note t5 = t[THEN conjunct2, THEN conjunct2, THEN conjunct2, THEN conjunct2]
  show ?thesis
    by (intro conjI) (rule h1 h2 h3 h4 t3 t4 t5)+
qed

end
